theory Spec2Isabelle
  imports Main "HOL-Library.Word" "HOL-Library.List_Lexorder"
begin

section \<open>JavaScript strings\<close>

text \<open>
  A JavaScript string is a sequence of UTF-16 code units: \<open>length\<close> counts code units and
  \<open>charCodeAt\<close> reads one.  Numbers that index strings (the cursor, a boundary offset) are
  integers and may be negative.
\<close>

type_synonym jschar = "16 word"
type_synonym jsstring = "jschar list"

text \<open>\<open>String.prototype.substring\<close>: both indices are clamped to \<open>[0, length]\<close> and swapped
  when the first is the larger; with one argument the string runs to its end.\<close>

definition clampIndex :: "jsstring \<Rightarrow> int \<Rightarrow> nat" where
  "clampIndex str i = nat (max 0 (min i (int (length str))))"

definition substring :: "jsstring \<Rightarrow> int \<Rightarrow> int \<Rightarrow> jsstring" where
  "substring str a b =
     (let x = clampIndex str a; y = clampIndex str b
      in take (max x y - min x y) (drop (min x y) str))"

definition substringFrom :: "jsstring \<Rightarrow> int \<Rightarrow> jsstring" where
  "substringFrom str a = drop (clampIndex str a) str"

section \<open>ASCII text and command names\<close>

definition js :: "string \<Rightarrow> jsstring" where
  "js str = map (\<lambda>c. of_nat (of_char c)) str"

text \<open>\<open>String.prototype.trim\<close> removes white space and line terminators at both ends.\<close>

definition isWhiteSpace :: "jschar \<Rightarrow> bool" where
  "isWhiteSpace c =
     (c \<in> {0x09, 0x0A, 0x0B, 0x0C, 0x0D, 0x20, 0xA0, 0x1680, 0x2028, 0x2029, 0x202F, 0x205F,
            0x3000, 0xFEFF}
      \<or> (0x2000 \<le> c \<and> c \<le> 0x200A))"

definition trim :: "jsstring \<Rightarrow> jsstring" where
  "trim str = rev (dropWhile isWhiteSpace (rev (dropWhile isWhiteSpace str)))"

definition startsWith :: "jsstring \<Rightarrow> jsstring \<Rightarrow> bool" where
  "startsWith str p = (take (length p) str = p)"

text \<open>The static command names of \<open>PgCommand\<close>.\<close>

definition BUILD :: jsstring where "BUILD = js ''build''"
definition CLEAR :: jsstring where "CLEAR = js ''clear''"
definition CONNECT :: jsstring where "CONNECT = js ''connect''"
definition DEPLOY :: jsstring where "DEPLOY = js ''deploy''"
definition HELP :: jsstring where "HELP = js ''help''"
definition SOLANA :: jsstring where "SOLANA = js ''solana''"
definition SPL_TOKEN :: jsstring where "SPL_TOKEN = js ''spl-token''"
definition RUN_LAST_CMD :: jsstring where "RUN_LAST_CMD = js ''!!''"

text \<open>\<open>PgCommand.help()\<close>.  \<open>fillWhitespace\<close> joins \<open>25 - cmdLength\<close> blanks; the \<open>reduce\<close>
  of the source has no initial value and throws on an empty array, which needs a name of 25
  characters or more: every name in \<open>COMMANDS\<close> is shorter.\<close>

definition COMMANDS :: "(jsstring \<times> jsstring) list" where
  "COMMANDS =
     [(BUILD, js ''Build your program''),
      (CLEAR, js ''Clear terminal''),
      (CONNECT, js ''Toggle connection to Playground Wallet''),
      (DEPLOY, js ''Deploy your program''),
      (SOLANA, js ''Commands for interacting with Solana''),
      (SPL_TOKEN, js ''Commands related to SPL Token'')]"

definition fillWhitespace :: "nat \<Rightarrow> jsstring" where
  "fillWhitespace cmdLength = replicate (25 - cmdLength) 0x20"

definition PgCommand_help :: jsstring where
  "PgCommand_help =
     js ''COMMANDS:'' @ [0x0A] @
     foldl (\<lambda>acc (name, description).
              acc @ js ''    '' @ name @ fillWhitespace (length name) @ description @ [0x0A])
       [] COMMANDS"

text \<open>Decimal text of a length, for the template string of the over-limit question.\<close>

fun decimal :: "nat \<Rightarrow> jsstring" where
  "decimal n = (if n < 10 then [of_nat (48 + n)] else decimal (n div 10) @ [of_nat (48 + n mod 10)])"

section \<open>The terminal surface (PgTty)\<close>

text \<open>What the shell asks the surface to draw, in call order.\<close>

datatype tty_out =
    Print jsstring
  | Println jsstring
  | PrintWide "jsstring list"
  | ClearLine
  | ClearInput
  | ClearTty
  | Clear
  | ReadChar jsstring

text \<open>
  Modelled from the spec: the class \<open>PgTty\<close> (file \<open>./tty\<close>) is not among the sources.  The
  spec describes it as the rendering sink with the operations "print text, print a line with
  trailing newline, clear current line, clear screen, get/set visible input text, get/set cursor
  column, read raw buffer line text", and the input line as "current line content + cursor
  offset".  The record keeps what the getters return; \<open>bufferLine\<close> is the text of the buffer
  line under the cursor up to the cursor column (\<open>getBuffer().getLine(..).translateToString(..)\<close>),
  \<open>None\<close> when \<open>getLine\<close> yields no line.
\<close>

record PgTty =
  input :: jsstring
  cursor :: int
  firstInit :: bool
  ttyPromptPrefix :: jsstring
  inputStartsWithPrompt :: bool
  bufferLine :: "jsstring option"
  screen :: "tty_out list"

text \<open>Modelled from the spec: "set visible input text" and "set cursor column" store the
  value; the drawing calls append to \<open>screen\<close> and leave line and cursor alone.\<close>

definition setInput :: "jsstring \<Rightarrow> bool \<Rightarrow> PgTty \<Rightarrow> PgTty" where
  "setInput newInput shouldNotClearInput t = t\<lparr>input := newInput\<rparr>"

definition setCursor :: "int \<Rightarrow> PgTty \<Rightarrow> PgTty" where
  "setCursor newCursor t = t\<lparr>cursor := newCursor\<rparr>"

definition setCursorDirectly :: "int \<Rightarrow> PgTty \<Rightarrow> PgTty" where
  "setCursorDirectly newCursor t = t\<lparr>cursor := newCursor\<rparr>"

definition draw :: "tty_out \<Rightarrow> PgTty \<Rightarrow> PgTty" where
  "draw x t = t\<lparr>screen := screen t @ [x]\<rparr>"

section \<open>Line editing: cursor move, insert, erase\<close>

text \<open>The three private editing methods of \<open>PgShell\<close> touch the shell only through its tty,
  so they are functions on the tty state.\<close>

definition handleCursorMove :: "int \<Rightarrow> PgTty \<Rightarrow> PgTty" where
  "handleCursorMove dir t =
     (if dir > 0 then
        (let num = min dir (int (length (input t)) - cursor t)
         in setCursorDirectly (cursor t + num) t)
      else if dir < 0 then
        (let num = max dir (- cursor t)
         in setCursorDirectly (cursor t + num) t)
      else t)"

definition handleCursorInsert :: "jsstring \<Rightarrow> PgTty \<Rightarrow> PgTty" where
  "handleCursorInsert data t =
     (let newInput = substring (input t) 0 (cursor t) @ data @ substringFrom (input t) (cursor t)
      in setInput newInput False (setCursorDirectly (cursor t + int (length data)) t))"

definition handleCursorErase :: "bool \<Rightarrow> PgTty \<Rightarrow> PgTty" where
  "handleCursorErase backspace t =
     (if backspace then
        (if cursor t \<le> 0 then t
         else
           (let newInput = substring (input t) 0 (cursor t - 1) @ substringFrom (input t) (cursor t)
            in setInput newInput True (setCursorDirectly (cursor t - 1) (draw ClearInput t))))
      else
        (let newInput = substring (input t) 0 (cursor t) @ substringFrom (input t) (cursor t + 1)
         in setInput newInput False t))"

text \<open>A sequence of the three operations, applied left to right.\<close>

datatype edit_op = Move int | Insert jsstring | Erase bool

fun applyEdit :: "PgTty \<Rightarrow> edit_op \<Rightarrow> PgTty" where
  "applyEdit t (Move dir) = handleCursorMove dir t"
| "applyEdit t (Insert data) = handleCursorInsert data t"
| "applyEdit t (Erase backspace) = handleCursorErase backspace t"

definition cursorInLine :: "PgTty \<Rightarrow> bool" where
  "cursorInLine t = (0 \<le> cursor t \<and> cursor t \<le> int (length (input t)))"

section \<open>History (PgShellHistory)\<close>

text \<open>
  Modelled from the spec: the class \<open>PgShellHistory\<close> (file \<open>./shell-history\<close>) is not among
  the sources.  The spec: "ordered sequence of past submitted lines, capacity N; cursor into
  history for up/down traversal.  Cursor is None except during active traversal; pushing a new
  entry resets the traversal cursor and appends only if the line is non-empty."  "\<open>push\<close>
  appends to the ring, evicting the oldest entry once capacity is exceeded.  \<open>getPrevious\<close>
  steps the traversal cursor one step toward older entries, clamped at the oldest, returning
  that entry or none if already at the ring's start or the ring is empty.  \<open>getNext\<close> steps
  toward newer entries symmetrically, returning empty-string semantics at the newest boundary.
  \<open>getEntries\<close> exposes the ring contents (oldest-first)."
\<close>

record PgShellHistory =
  entries :: "jsstring list"
  traversal :: "nat option"
  capacity :: nat

definition push :: "jsstring \<Rightarrow> PgShellHistory \<Rightarrow> PgShellHistory" where
  "push entry h =
     (let es = (if entry = [] then entries h else entries h @ [entry])
      in h\<lparr>entries := drop (length es - capacity h) es, traversal := None\<rparr>)"

definition getPrevious :: "PgShellHistory \<Rightarrow> jsstring option \<times> PgShellHistory" where
  "getPrevious h =
     (let pos = (case traversal h of None \<Rightarrow> length (entries h)
                 | Some i \<Rightarrow> min i (length (entries h)))
      in if pos = 0 then (None, h)
         else (Some (entries h ! (pos - 1)), h\<lparr>traversal := Some (pos - 1)\<rparr>))"

definition getNext :: "PgShellHistory \<Rightarrow> jsstring option \<times> PgShellHistory" where
  "getNext h =
     (case traversal h of
        None \<Rightarrow> (None, h)
      | Some i \<Rightarrow>
          if i + 1 < length (entries h)
          then (Some (entries h ! (i + 1)), h\<lparr>traversal := Some (i + 1)\<rparr>)
          else (None, h\<lparr>traversal := None\<rparr>))"

definition getEntries :: "PgShellHistory \<Rightarrow> jsstring list" where
  "getEntries h = entries h"

section \<open>The shell and the page around it\<close>

text \<open>
  A pending read (\<open>ActivePrompt\<close>, \<open>ActiveCharPrompt\<close>): its prompt prefix and, when present,
  its resolver, named by the number of the promise it settles.
\<close>

record ActivePrompt =
  promptPrefix :: jsstring
  resolve :: "nat option"

type_synonym ActiveCharPrompt = ActivePrompt

datatype PkgName = SOLANA_CLI | SPL_TOKEN_CLI | SUGAR_CLI

datatype TerminalAction = buildStart | walletConnectOrSetupStart | deployStart

datatype Lang = RUST | TYPESCRIPT

text \<open>Calls that leave the shell: terminal state changes, log lines, custom events other than
  the wait-for-input one, package loads (whose continuation runs the command line) and the
  job handed to \<open>PgTerminal.runCmd\<close>.\<close>

datatype effect =
    SetTerminalState TerminalAction
  | LogWasm jsstring
  | EditorFormat Lang bool
  | ClientRun bool "jsstring option"
  | LoadPkg PkgName bool jsstring
  | RunCmd PkgName jsstring

text \<open>
  The page: the wallet flag read by \<open>PgWallet.checkIsPgConnected\<close>, the callbacks queued by
  \<open>setTimeout\<close> in \<open>enable\<close>, the \<open>handleInput\<close> listeners registered on the document for
  \<open>TERMINAL_WAIT_FOR_INPUT\<close> (each named by the promise it resolves), the promise counter,
  the resolver calls made so far (promise, value), and the effects above.
\<close>

record Page =
  isPgConnected :: bool
  enableTimers :: nat
  waitListeners :: "nat list"
  nextPromise :: nat
  resolved :: "(nat \<times> jsstring) list"
  effects :: "effect list"

text \<open>An autocomplete handler is a closure over the shell: it is given the history as it is
  when called, then \<open>(index, tokens)\<close>.\<close>

type_synonym AutoCompleteHandler = "PgShellHistory \<Rightarrow> int \<Rightarrow> jsstring list \<Rightarrow> jsstring list"

record PgShell =
  pgTty :: PgTty
  history :: PgShellHistory
  active :: bool
  waitingForInput :: bool
  processCount :: int
  maxAutocompleteEntries :: int
  autocompleteHandlers :: "AutoCompleteHandler list"
  loadedPkgs :: "PkgName \<rightharpoonup> bool"
  activePrompt :: "ActivePrompt option"
  activeCharPrompt :: "ActiveCharPrompt option"
  page :: Page

text \<open>
  What the shell imports and the sources do not hold is a parameter: the functions of
  \<open>./shell-utils\<close>, the command names that \<open>PgCommand\<close> is used with but does not declare in
  the source at hand, and the texts and styles of \<open>PgTerminal\<close>.
\<close>

record Env =
  isIncompleteInput :: "jsstring \<Rightarrow> bool"
  closestLeftBoundary :: "jsstring \<Rightarrow> int \<Rightarrow> int"
  closestRightBoundary :: "jsstring \<Rightarrow> int \<Rightarrow> int"
  hasTrailingWhitespace :: "jsstring \<Rightarrow> bool"
  collectAutocompleteCandidates ::
    "(int \<Rightarrow> jsstring list \<Rightarrow> jsstring list) list \<Rightarrow> jsstring \<Rightarrow> jsstring list"
  PRETTIER :: jsstring
  RUN :: jsstring
  TEST :: jsstring
  RUSTFMT :: jsstring
  SUGAR :: jsstring
  PROMPT_PREFIX :: jsstring
  WAITING_INPUT_PROMPT_PREFIX :: jsstring
  WAITING_INPUT_MSG_PREFIX :: jsstring
  secondary :: "jsstring \<Rightarrow> jsstring"
  italic :: "jsstring \<Rightarrow> jsstring"

definition onTty :: "(PgTty \<Rightarrow> PgTty) \<Rightarrow> PgShell \<Rightarrow> PgShell" where
  "onTty f s = s\<lparr>pgTty := f (pgTty s)\<rparr>"

definition onPage :: "(Page \<Rightarrow> Page) \<Rightarrow> PgShell \<Rightarrow> PgShell" where
  "onPage f s = s\<lparr>page := f (page s)\<rparr>"

definition emit :: "effect \<Rightarrow> PgShell \<Rightarrow> PgShell" where
  "emit e s = onPage (\<lambda>p. p\<lparr>effects := effects p @ [e]\<rparr>) s"

text \<open>Calling a resolver; a promise takes the value of the first call.\<close>

definition callResolve :: "nat \<Rightarrow> jsstring \<Rightarrow> PgShell \<Rightarrow> PgShell" where
  "callResolve r v s = onPage (\<lambda>p. p\<lparr>resolved := resolved p @ [(r, v)]\<rparr>) s"

section \<open>Enabling, disabling and prompting\<close>

definition incrementProcessCount :: "PgShell \<Rightarrow> PgShell" where
  "incrementProcessCount s = s\<lparr>processCount := processCount s + 1\<rparr>"

definition decrementProcessCount :: "PgShell \<Rightarrow> PgShell" where
  "decrementProcessCount s =
     (if processCount s \<noteq> 0 then s\<lparr>processCount := processCount s - 1\<rparr> else s)"

definition disable :: "PgShell \<Rightarrow> PgShell" where
  "disable s = (incrementProcessCount s)\<lparr>active := False\<rparr>"

text \<open>\<open>enable()\<close> only queues its body with \<open>setTimeout\<close>; the body is \<open>enableTimeout\<close> below.\<close>

definition enable :: "PgShell \<Rightarrow> PgShell" where
  "enable s = onPage (\<lambda>p. p\<lparr>enableTimers := enableTimers p + 1\<rparr>) s"

text \<open>
  Modelled from the spec: \<open>PgTty.read\<close> is not among the sources.  The spec: a pending read is
  "an outstanding request to obtain a full line, holding a resolver to be invoked exactly once
  when input completes, plus an optional prompt-prefix string"; the prompt is "the visible
  marker plus the act of requesting one line of input"; the input line is "reset to empty on
  submit".  The read draws the prefix, empties the line and hands out a fresh promise.
\<close>

definition ttyRead :: "jsstring \<Rightarrow> PgShell \<Rightarrow> ActivePrompt \<times> PgShell" where
  "ttyRead prefix s =
     (let r = nextPromise (page s);
          s1 = onTty (\<lambda>t. (draw (Print prefix) t)\<lparr>input := [], cursor := 0\<rparr>) s;
          s2 = onPage (\<lambda>p. p\<lparr>nextPromise := r + 1\<rparr>) s1
      in (\<lparr>promptPrefix = prefix, resolve = Some r\<rparr>, s2))"

text \<open>\<open>prompt()\<close> up to its \<open>await\<close>: what follows the await (pushing the trimmed line into the
  history) runs after the read is resolved.  The modelled read does not throw, so the
  \<open>catch\<close> branch is not entered.\<close>

definition prompt :: "Env \<Rightarrow> PgShell \<Rightarrow> PgShell" where
  "prompt env s =
     (if activePrompt s \<noteq> None \<and> inputStartsWithPrompt (pgTty s) then s
      else
        (let promptText = (if waitingForInput s then WAITING_INPUT_PROMPT_PREFIX env
                           else PROMPT_PREFIX env);
             (p, s1) = ttyRead promptText s
         in s1\<lparr>activePrompt := Some p, active := True\<rparr>))"

definition enableTimeout :: "Env \<Rightarrow> PgShell \<Rightarrow> PgShell" where
  "enableTimeout env s =
     (let s1 = decrementProcessCount (onPage (\<lambda>p. p\<lparr>enableTimers := enableTimers p - 1\<rparr>) s)
      in if processCount s1 = 0
         then snd (ttyRead [] (prompt env (s1\<lparr>active := True\<rparr>)))
         else s1)"

text \<open>\<open>printAndRestartPrompt(callback)\<close>: the callback reports whether it returned a promise;
  if it did, \<open>resume\<close> waits for that promise.\<close>

definition resume :: "PgShell \<Rightarrow> PgShell" where
  "resume s = onTty (\<lambda>t. let t1 = setCursor (cursor t) t in setInput (input t1) False t1) s"

definition printAndRestartPrompt :: "(PgShell \<Rightarrow> bool \<times> PgShell) \<Rightarrow> PgShell \<Rightarrow> PgShell" where
  "printAndRestartPrompt callback s =
     (let s1 = onTty (\<lambda>t. draw (Print [0x0D, 0x0A]) (setCursor (int (length (input t))) t)) s;
          (ret, s2) = callback s1
      in if ret then s2 else resume s2)"

section \<open>Command dispatch\<close>

text \<open>
  Modelled from the spec: \<open>PgWallet.checkIsPgConnected\<close> is not among the sources.  The spec:
  "some handlers require a precondition (e.g., wallet connected) and silently no-op (after
  still calling \<open>enable()\<close>) if unmet"; "a command precondition failure (e.g., no active
  wallet) silently skips the action but still releases the prompt".  The check answers the
  wallet flag and, when the wallet is not connected, calls \<open>enable()\<close>.
\<close>

definition checkIsPgConnected :: "PgShell \<Rightarrow> bool \<times> PgShell" where
  "checkIsPgConnected s = (if isPgConnected (page s) then (True, s) else (False, enable s))"

text \<open>The body of the \<open>async\<close> function of the \<open>solana\<close> and \<open>spl-token\<close> cases up to its
  \<open>await\<close>: it marks the package as loaded on first use and starts the load.\<close>

definition loadAndRun :: "PkgName \<Rightarrow> jsstring \<Rightarrow> PgShell \<Rightarrow> PgShell" where
  "loadAndRun pkg cmd s =
     (let initial = (loadedPkgs s pkg \<noteq> Some True);
          s1 = (if initial then s\<lparr>loadedPkgs := (loadedPkgs s)(pkg \<mapsto> True)\<rparr> else s)
      in emit (LoadPkg pkg initial cmd) s1)"

text \<open>The capture group of \<open>/^\w+\s?(.*)/\<close> on the command line, \<open>None\<close> when there is no
  match.\<close>

definition isWordChar :: "jschar \<Rightarrow> bool" where
  "isWordChar c =
     ((0x30 \<le> c \<and> c \<le> 0x39) \<or> (0x41 \<le> c \<and> c \<le> 0x5A) \<or> c = 0x5F \<or> (0x61 \<le> c \<and> c \<le> 0x7A))"

definition isLineTerminator :: "jschar \<Rightarrow> bool" where
  "isLineTerminator c = (c \<in> {0x0A, 0x0D, 0x2028, 0x2029})"

definition runPath :: "jsstring \<Rightarrow> jsstring option" where
  "runPath cmd =
     (let w = takeWhile isWordChar cmd; r = dropWhile isWordChar cmd
      in if w = [] then None
         else Some (takeWhile (\<lambda>c. \<not> isLineTerminator c)
                      (case r of [] \<Rightarrow> [] | c # cs \<Rightarrow> if isWhiteSpace c then cs else r)))"

text \<open>One pass through the \<open>switch\<close> of \<open>_parseCommand\<close>: it either returns, or calls itself
  on the last history entry.\<close>

datatype parse_step = Return PgShell | Again jsstring

definition parseCommandStep :: "Env \<Rightarrow> jsstring \<Rightarrow> PgShell \<Rightarrow> parse_step" where
  "parseCommandStep env cmd s =
     (let cmdName = takeWhile (\<lambda>c. c \<noteq> 0x20) (trim cmd) in
      if cmdName = BUILD then Return (emit (SetTerminalState buildStart) s)
      else if cmdName = CLEAR then
        Return (prompt env (onTty (draw Clear) (onTty (draw ClearTty) s)))
      else if cmdName = CONNECT then Return (emit (SetTerminalState walletConnectOrSetupStart) s)
      else if cmdName = DEPLOY then
        (let (connected, s1) = checkIsPgConnected s
         in Return (if connected then emit (SetTerminalState deployStart) s1 else s1))
      else if cmdName = HELP then Return (enable (emit (LogWasm PgCommand_help) s))
      else if cmdName = PRETTIER env then Return (emit (EditorFormat TYPESCRIPT True) s)
      else if cmdName = RUN_LAST_CMD then
        (let es = getEntries (history s)
         in if es = [] then
              Return (enable (onTty (draw (Println (js ''No previous command.''))) s))
            else Again (last es))
      else if cmdName = RUN env \<or> cmdName = TEST env then
        Return (emit (ClientRun (startsWith cmd (TEST env)) (runPath cmd)) s)
      else if cmdName = RUSTFMT env then Return (emit (EditorFormat RUST True) s)
      else if cmdName = SOLANA then
        (let (connected, s1) = checkIsPgConnected s
         in Return (if connected then loadAndRun SOLANA_CLI cmd s1 else s1))
      else if cmdName = SPL_TOKEN then
        (let (connected, s1) = checkIsPgConnected s
         in Return (if connected then loadAndRun SPL_TOKEN_CLI cmd s1 else s1))
      else if cmdName = SUGAR env then Return (emit (RunCmd SUGAR_CLI cmd) s)
      else
        Return (enable
          (if cmdName \<noteq> [] then
             onTty (draw (Println (js ''Command '' @ [0x27] @ italic env cmd @ [0x27]
                                    @ js '' not found.'' @ [0x0A]))) s
           else s)))"

text \<open>\<open>_parseCommand\<close>.  The repeat-last-command case recurses without changing the history,
  so it does not return when the last entry is itself that command: \<open>None\<close>.\<close>

partial_function (option) parseCommand :: "Env \<Rightarrow> jsstring \<Rightarrow> PgShell \<Rightarrow> PgShell option" where
  "parseCommand env cmd s =
     (case parseCommandStep env cmd s of
        Return s' \<Rightarrow> Some s'
      | Again lastCmd \<Rightarrow> parseCommand env lastCmd s)"

declare parseCommand.simps [code]

section \<open>Completing a read and waiting for user input\<close>

text \<open>The \<open>handleInput\<close> listener of the promise \<open>k\<close>, and the dispatch of
  \<open>TERMINAL_WAIT_FOR_INPUT\<close> to the listeners registered when the event is fired.\<close>

definition handleInput :: "nat \<Rightarrow> PgShell \<Rightarrow> PgShell" where
  "handleInput k s =
     (let s1 = s\<lparr>waitingForInput := False\<rparr>;
          s2 = onPage (\<lambda>p. p\<lparr>waitListeners := remove1 k (waitListeners p)\<rparr>) s1
      in callResolve k (input (pgTty s2)) s2)"

definition dispatchWaitForInput :: "PgShell \<Rightarrow> PgShell" where
  "dispatchWaitForInput s = foldl (\<lambda>s' k. handleInput k s') s (waitListeners (page s))"

definition handleReadComplete :: "Env \<Rightarrow> bool \<Rightarrow> PgShell \<Rightarrow> PgShell option" where
  "handleReadComplete env clearCmd s =
     (let inp = input (pgTty s);
          s1 = (case activePrompt s of
                  None \<Rightarrow> s
                | Some p \<Rightarrow>
                    (case resolve p of
                       None \<Rightarrow> s
                     | Some r \<Rightarrow> (callResolve r inp s)\<lparr>activePrompt := None\<rparr>));
          s2 = onTty (draw (if clearCmd then ClearLine else Print [0x0D, 0x0A])) s1;
          s3 = s2\<lparr>active := False\<rparr>
      in if waitingForInput s3 then Some (dispatchWaitForInput s3)
         else parseCommand env inp s3)"

text \<open>\<open>waitForUserInput(msg)\<close> returns a promise: rejected at once, or pending until its
  listener resolves it.\<close>

datatype promise = Rejected jsstring | Pending nat

definition waitForUserInput :: "Env \<Rightarrow> jsstring \<Rightarrow> PgShell \<Rightarrow> promise \<times> PgShell" where
  "waitForUserInput env msg s =
     (if waitingForInput s then (Rejected (js ''Already waiting for input.''), s)
      else
        (let k = nextPromise (page s);
             s1 = s\<lparr>waitingForInput := True\<rparr>;
             s2 = onTty (draw ClearLine) s1;
             s3 = onTty (draw (Println (secondary env (WAITING_INPUT_MSG_PREFIX env) @ msg))) s2;
             s4 = enable s3;
             s5 = onPage (\<lambda>p. p\<lparr>waitListeners := waitListeners p @ [k],
                                  nextPromise := k + 1\<rparr>) s4
         in (Pending k, s5)))"

section \<open>Handling terminal data\<close>

text \<open>A history value is used when it is truthy: defined and not the empty string.\<close>

definition recall :: "jsstring option \<times> PgShellHistory \<Rightarrow> PgShell \<Rightarrow> PgShell" where
  "recall r s =
     (let s1 = s\<lparr>history := snd r\<rparr>
      in case fst r of
           None \<Rightarrow> s1
         | Some v \<Rightarrow> if v = [] then s1
                     else onTty (\<lambda>t. setCursor (int (length v)) (setInput v False t)) s1)"

definition recallOrEmpty :: "jsstring option \<times> PgShellHistory \<Rightarrow> PgShell \<Rightarrow> PgShell" where
  "recallOrEmpty r s =
     (let v = (case fst r of None \<Rightarrow> [] | Some v \<Rightarrow> v)
      in onTty (\<lambda>t. setCursor (int (length v)) (setInput v False t)) (s\<lparr>history := snd r\<rparr>))"

text \<open>The \<open>switch\<close> on \<open>data.substring(1)\<close> after the escape byte.\<close>

definition handleEscape :: "Env \<Rightarrow> jsstring \<Rightarrow> PgShell \<Rightarrow> PgShell" where
  "handleEscape env seq s =
     (if seq = [0x5B, 0x41] then recall (getPrevious (history s)) s
      else if seq = [0x5B, 0x42] then recallOrEmpty (getNext (history s)) s
      else if seq = [0x5B, 0x44] then onTty (handleCursorMove (- 1)) s
      else if seq = [0x5B, 0x43] then onTty (handleCursorMove 1) s
      else if seq = [0x5B, 0x33, 0x7E] then onTty (handleCursorErase False) s
      else if seq = [0x5B, 0x46] then onTty (\<lambda>t. setCursor (int (length (input t))) t) s
      else if seq = [0x5B, 0x48] then onTty (setCursor 0) s
      else if seq = [0x62] then
        (let ofs = closestLeftBoundary env (input (pgTty s)) (cursor (pgTty s))
         in if ofs \<noteq> 0 then onTty (setCursor ofs) s else s)
      else if seq = [0x66] then
        (let ofs = closestRightBoundary env (input (pgTty s)) (cursor (pgTty s))
         in if ofs \<noteq> 0 then onTty (setCursor ofs) s else s)
      else if seq = [0x7F] then
        (let ofs = closestLeftBoundary env (input (pgTty s)) (cursor (pgTty s))
         in if ofs \<noteq> 0 then
              onTty (\<lambda>t. setCursor ofs
                      (setInput (substring (input t) 0 ofs @ substringFrom (input t) (cursor t))
                         False t)) s
            else s)
      else s)"

text \<open>The TAB case.\<close>

definition handleTab :: "Env \<Rightarrow> PgShell \<Rightarrow> PgShell" where
  "handleTab env s =
     (if length (autocompleteHandlers s) > 0 then
        (let inputFragment = substring (input (pgTty s)) 0 (cursor (pgTty s));
             hasTrailingSpace = hasTrailingWhitespace env inputFragment;
             candidates = sort (collectAutocompleteCandidates env
                                  (map (\<lambda>h. h (history s)) (autocompleteHandlers s))
                                  inputFragment)
         in if length candidates = 0 then
              (if \<not> hasTrailingSpace then onTty (handleCursorInsert [0x20]) s else s)
            else if length candidates = 1 then
              onTty (\<lambda>t. setCursor (int (length (candidates ! 0)))
                      (setInput (candidates ! 0) False t)) s
            else if int (length candidates) \<le> maxAutocompleteEntries s then
              printAndRestartPrompt (\<lambda>s'. (False, onTty (draw (PrintWide candidates)) s')) s
            else
              printAndRestartPrompt
                (\<lambda>s'. (True, onTty (draw (ReadChar (js ''Display all '' @ decimal (length candidates)
                                                      @ js '' possibilities? (y or n)''))) s')) s)
      else onTty (handleCursorInsert [0x20, 0x20, 0x20, 0x20]) s)"

text \<open>The \<open>switch\<close> on \<open>data\<close> for control characters; CTRL+C (\<open>0x03\<close>) has no case.\<close>

definition handleControl :: "Env \<Rightarrow> jsstring \<Rightarrow> PgShell \<Rightarrow> PgShell option" where
  "handleControl env data s =
     (if data = [0x0D] then
        (if isIncompleteInput env (input (pgTty s)) then Some (onTty (handleCursorInsert [0x0A]) s)
         else handleReadComplete env False s)
      else if data = [0x7F] \<or> data = [0x08] \<or> data = [0x04] then
        Some (onTty (handleCursorErase True) s)
      else if data = [0x09] then Some (handleTab env s)
      else if data = [0x01] then Some (onTty (setCursor 0) s)
      else if data = [0x02] then Some (onTty (handleCursorMove (- 1)) s)
      else if data = [0x05] then Some (onTty (\<lambda>t. setCursor (int (length (input t))) t) s)
      else if data = [0x06] then Some (onTty (handleCursorMove 1) s)
      else if data = [0x07] then
        Some (onTty (setInput [] False) (s\<lparr>history := snd (getPrevious (history s))\<rparr>))
      else if data = [0x0B] then
        Some (onTty (\<lambda>t. let t1 = setInput (substring (input t) 0 (cursor t)) False t
                          in setCursor (int (length (input t1))) t1) s)
      else if data = [0x0E] then Some (recallOrEmpty (getNext (history s)) s)
      else if data = [0x10] then Some (recall (getPrevious (history s)) s)
      else if data = [0x15] then
        Some (onTty (\<lambda>t. setCursor 0 (setInput (substringFrom (input t) (cursor t)) False t)) s)
      else Some s)"

text \<open>\<open>_handleData\<close>.  On the empty string \<open>charCodeAt(0)\<close> is \<open>NaN\<close>, every comparison fails
  and the insert branch is taken.\<close>

definition handleData :: "Env \<Rightarrow> jsstring \<Rightarrow> PgShell \<Rightarrow> PgShell option" where
  "handleData env data s =
     (if \<not> active s \<and> data \<noteq> [0x03] then Some s
      else
        (case data of
           [] \<Rightarrow> Some (onTty (handleCursorInsert data) s)
         | ord # rest \<Rightarrow>
             if ord = 0x1B then Some (handleEscape env rest s)
             else if ord < 32 \<or> ord = 0x7F then handleControl env data s
             else Some (onTty (handleCursorInsert data) s)))"

text \<open>\<open>data.replace(/[\r\n]+/g, "\r")\<close> and \<open>Array.from\<close>, which splits a string into code
  points: a high surrogate followed by a low surrogate stays one element.\<close>

definition isNewline :: "jschar \<Rightarrow> bool" where
  "isNewline c = (c = 0x0D \<or> c = 0x0A)"

function replaceNewlines :: "jsstring \<Rightarrow> jsstring" where
  "replaceNewlines [] = []"
| "replaceNewlines (c # cs) =
     (if isNewline c then 0x0D # replaceNewlines (dropWhile isNewline cs)
      else c # replaceNewlines cs)"
  by pat_completeness auto
termination
  by (relation "measure length") (auto simp: le_imp_less_Suc length_dropWhile_le)

definition isHighSurrogate :: "jschar \<Rightarrow> bool" where
  "isHighSurrogate c = (0xD800 \<le> c \<and> c \<le> 0xDBFF)"

definition isLowSurrogate :: "jschar \<Rightarrow> bool" where
  "isLowSurrogate c = (0xDC00 \<le> c \<and> c \<le> 0xDFFF)"

fun arrayFrom :: "jsstring \<Rightarrow> jsstring list" where
  "arrayFrom [] = []"
| "arrayFrom [c] = [[c]]"
| "arrayFrom (c # d # cs) =
     (if isHighSurrogate c \<and> isLowSurrogate d then [c, d] # arrayFrom cs
      else [c] # arrayFrom (d # cs))"

fun feedChars :: "Env \<Rightarrow> jsstring list \<Rightarrow> PgShell \<Rightarrow> PgShell option" where
  "feedChars env [] s = Some s"
| "feedChars env (c # cs) s =
     (case handleData env c s of None \<Rightarrow> None | Some s' \<Rightarrow> feedChars env cs s')"

text \<open>The first-input block of \<open>handleTermData\<close>: \<open>None\<close> is its early return when the buffer
  has no line at the cursor.\<close>

definition capturePromptPrefix :: "PgShell \<Rightarrow> PgShell option" where
  "capturePromptPrefix s =
     (case activePrompt s of
        None \<Rightarrow> Some s
      | Some p \<Rightarrow>
          if firstInit (pgTty s) then
            (case bufferLine (pgTty s) of
               None \<Rightarrow> None
             | Some promptRead \<Rightarrow>
                 Some (onTty (\<lambda>t. t\<lparr>ttyPromptPrefix := promptRead, firstInit := False\<rparr>)
                         (s\<lparr>activePrompt := Some (p\<lparr>promptPrefix := promptRead\<rparr>)\<rparr>)))
          else Some s)"

definition handleTermData :: "Env \<Rightarrow> jsstring \<Rightarrow> PgShell \<Rightarrow> PgShell option" where
  "handleTermData env data s =
     (if \<not> active s \<and> data \<noteq> [0x03] then Some s
      else
        (case capturePromptPrefix s of
           None \<Rightarrow> Some s
         | Some s1 \<Rightarrow>
             (case Option.bind (activeCharPrompt s1) resolve of
                Some r \<Rightarrow>
                  Some (onTty (draw (Print [0x0D, 0x0A]))
                          ((callResolve r data s1)\<lparr>activeCharPrompt := None\<rparr>))
              | None \<Rightarrow>
                  if length data > 3 \<and> hd data \<noteq> 0x1B
                  then feedChars env (arrayFrom (replaceNewlines data)) s1
                  else handleData env data s1)))"

section \<open>A concrete environment and session\<close>

text \<open>
  An environment to run the shell on concrete inputs: a bracket count as the incomplete-input
  predicate, word boundaries at the starts and ends of runs of non-blank characters, history
  entries that begin with the fragment as candidates.
\<close>

definition exampleEnv :: Env where
  "exampleEnv =
     \<lparr>isIncompleteInput = (\<lambda>str. count_list str 0x29 < count_list str 0x28),
      closestLeftBoundary = (\<lambda>str ofs.
        int (length (dropWhile (\<lambda>c. \<not> isWhiteSpace c)
                       (dropWhile isWhiteSpace (rev (take (nat ofs) str)))))),
      closestRightBoundary = (\<lambda>str ofs.
        int (length str) -
        int (length (dropWhile (\<lambda>c. \<not> isWhiteSpace c)
                       (dropWhile isWhiteSpace (drop (nat ofs) str))))),
      hasTrailingWhitespace = (\<lambda>str. str \<noteq> [] \<and> isWhiteSpace (last str)),
      collectAutocompleteCandidates = (\<lambda>handlers fragment.
        filter (\<lambda>c. startsWith c fragment) (concat (map (\<lambda>h. h 0 [fragment]) handlers))),
      PRETTIER = js ''prettier'',
      RUN = js ''run'',
      TEST = js ''test'',
      RUSTFMT = js ''rustfmt'',
      SUGAR = js ''sugar'',
      PROMPT_PREFIX = js ''$ '',
      WAITING_INPUT_PROMPT_PREFIX = js ''> '',
      WAITING_INPUT_MSG_PREFIX = js ''Input: '',
      secondary = (\<lambda>str. str),
      italic = (\<lambda>str. str)\<rparr>"

text \<open>The tty of a prompting shell with \<open>hel\<close> typed and the cursor behind it.\<close>

definition exampleTty :: PgTty where
  "exampleTty =
     \<lparr>input = [0x68, 0x65, 0x6C], cursor = 3, firstInit = False, ttyPromptPrefix = [0x24, 0x20],
      inputStartsWithPrompt = True, bufferLine = Some [0x24, 0x20], screen = []\<rparr>"

definition exampleShell :: PgShell where
  "exampleShell =
     \<lparr>pgTty = exampleTty,
      history = \<lparr>entries = [[0x62, 0x75, 0x69, 0x6C, 0x64], [0x68, 0x65, 0x6C, 0x70]],
                 traversal = None, capacity = 30\<rparr>,
      active = True,
      waitingForInput = False,
      processCount = 0,
      maxAutocompleteEntries = 100,
      autocompleteHandlers = [\<lambda>h index tokens. getEntries h],
      loadedPkgs = Map.empty,
      activePrompt = Some \<lparr>promptPrefix = [0x24, 0x20], resolve = Some 0\<rparr>,
      activeCharPrompt = None,
      page = \<lparr>isPgConnected = False, enableTimers = 0, waitListeners = [], nextPromise = 1,
              resolved = [], effects = []\<rparr>\<rparr>"

section \<open>Vocabulary of the properties\<close>

text \<open>The value a promise has taken: that of the first call of its resolver.\<close>

definition settled :: "PgShell \<Rightarrow> nat \<Rightarrow> jsstring option" where
  "settled s = map_of (resolved (page s))"

text \<open>A char-level read is pending when there is a char prompt that holds a resolver (the
  test of \<open>handleTermData\<close>).\<close>

definition charReadPending :: "PgShell \<Rightarrow> bool" where
  "charReadPending s = (Option.bind (activeCharPrompt s) resolve \<noteq> None)"

text \<open>An element of \<open>Array.from(str)\<close>: one code unit, or a surrogate pair.\<close>

definition isCodePoint :: "jsstring \<Rightarrow> bool" where
  "isCodePoint p =
     (case p of
        [c] \<Rightarrow> True
      | [c, d] \<Rightarrow> isHighSurrogate c \<and> isLowSurrogate d
      | _ \<Rightarrow> False)"

text \<open>Sessions derived from the example: after a first \<open>waitForUserInput\<close>, with an open
  bracket typed, with nothing to complete, before the first input of a prompt (with and
  without a buffer line under the cursor), with an empty line and a display limit of one
  candidate, and disabled.\<close>

definition waitingShell :: PgShell where
  "waitingShell = snd (waitForUserInput exampleEnv [0x3F] exampleShell)"

definition openBracketShell :: PgShell where
  "openBracketShell = exampleShell\<lparr>pgTty := exampleTty\<lparr>input := [0x28], cursor := 1\<rparr>\<rparr>"

definition noMatchShell :: PgShell where
  "noMatchShell = exampleShell\<lparr>pgTty := exampleTty\<lparr>input := [0x7A, 0x7A], cursor := 2\<rparr>\<rparr>"

definition noMatchBlankShell :: PgShell where
  "noMatchBlankShell =
     exampleShell\<lparr>pgTty := exampleTty\<lparr>input := [0x7A, 0x7A, 0x20], cursor := 3\<rparr>\<rparr>"

definition firstInputShell :: PgShell where
  "firstInputShell = exampleShell\<lparr>pgTty := exampleTty\<lparr>firstInit := True\<rparr>\<rparr>"

definition noBufferLineShell :: PgShell where
  "noBufferLineShell =
     exampleShell\<lparr>pgTty := exampleTty\<lparr>firstInit := True, bufferLine := None\<rparr>\<rparr>"

definition overLimitShell :: PgShell where
  "overLimitShell =
     exampleShell\<lparr>pgTty := exampleTty\<lparr>input := [], cursor := 0\<rparr>,
                  maxAutocompleteEntries := 1\<rparr>"

definition inactiveShell :: PgShell where
  "inactiveShell = exampleShell\<lparr>active := False\<rparr>"

section \<open>Properties\<close>

lemma length_substring_prefix:
  "0 \<le> c \<Longrightarrow> c \<le> int (length str) \<Longrightarrow> substring str 0 c = take (nat c) str"
  by (simp add: substring_def clampIndex_def Let_def min_def max_def)

lemma substringFrom_in_range:
  "0 \<le> c \<Longrightarrow> substringFrom str c = drop (nat c) str"
  by (simp add: substringFrom_def clampIndex_def min_def max_def)

lemma handleCursorMove_keeps:
  "cursorInLine t \<Longrightarrow> cursorInLine (handleCursorMove dir t)"
  by (auto simp: cursorInLine_def handleCursorMove_def setCursorDirectly_def Let_def)

lemma handleCursorInsert_keeps:
  "cursorInLine t \<Longrightarrow> cursorInLine (handleCursorInsert data t)"
  by (auto simp: cursorInLine_def handleCursorInsert_def setCursorDirectly_def setInput_def
      Let_def length_substring_prefix substringFrom_in_range)

lemma handleCursorErase_keeps:
  "cursorInLine t \<Longrightarrow> cursorInLine (handleCursorErase backspace t)"
  by (auto simp: cursorInLine_def handleCursorErase_def setCursorDirectly_def setInput_def
      draw_def Let_def length_substring_prefix substringFrom_in_range)

lemma applyEdit_keeps: "cursorInLine t \<Longrightarrow> cursorInLine (applyEdit t e)"
  by (cases e) (simp_all add: handleCursorMove_keeps handleCursorInsert_keeps
      handleCursorErase_keeps)

lemma foldl_applyEdit_keeps: "cursorInLine t \<Longrightarrow> cursorInLine (foldl applyEdit t ops)"
  by (induction ops arbitrary: t) (simp_all add: applyEdit_keeps)

text \<open>
  Claim C9.  Starting from a cursor inside \<open>[0, length of the input]\<close>, the cursor is inside the
  bounds of the current input after every operation of any sequence of cursor moves, inserts
  and erases (\<open>take k ops\<close> is the sequence up to its \<open>k\<close>-th operation).  A move lands on the requested offset
  clamped to the line, an insert grows the line by the inserted text and advances the cursor by
  its length, and a backspace at offset 0 changes nothing.
\<close>

theorem cursor_stays_in_line:
  assumes "cursorInLine t"
  shows "cursorInLine (foldl applyEdit t (take k ops))
    \<and> cursor (handleCursorMove dir t) = max 0 (min (int (length (input t))) (cursor t + dir))
    \<and> input (handleCursorMove dir t) = input t
    \<and> cursor (handleCursorInsert data t) = cursor t + int (length data)
    \<and> input (handleCursorInsert data t)
        = take (nat (cursor t)) (input t) @ data @ drop (nat (cursor t)) (input t)
    \<and> handleCursorErase True (t\<lparr>cursor := 0\<rparr>) = t\<lparr>cursor := 0\<rparr>"
proof -
  have seq: "cursorInLine (foldl applyEdit t (take k ops))"
    using assms by (simp add: foldl_applyEdit_keeps)
  have mv: "cursor (handleCursorMove dir t) = max 0 (min (int (length (input t))) (cursor t + dir))"
    using assms
    by (auto simp: cursorInLine_def handleCursorMove_def setCursorDirectly_def Let_def)
  have mvi: "input (handleCursorMove dir t) = input t"
    by (simp add: handleCursorMove_def setCursorDirectly_def Let_def)
  have ins: "cursor (handleCursorInsert data t) = cursor t + int (length data)"
    by (simp add: handleCursorInsert_def setCursorDirectly_def setInput_def Let_def)
  have insi: "input (handleCursorInsert data t)
        = take (nat (cursor t)) (input t) @ data @ drop (nat (cursor t)) (input t)"
    using assms
    by (simp add: cursorInLine_def handleCursorInsert_def setCursorDirectly_def setInput_def
        Let_def length_substring_prefix substringFrom_in_range)
  have bs: "handleCursorErase True (t\<lparr>cursor := 0\<rparr>) = t\<lparr>cursor := 0\<rparr>"
    by (simp add: handleCursorErase_def)
  from seq mv mvi ins insi bs show ?thesis by blast
qed

theorem cursor_stays_in_line_witness:
  "cursorInLine exampleTty
   \<and> cursorInLine (foldl applyEdit exampleTty
        (take 4 [Move (- 5), Insert [0x6C, 0x6F], Erase True, Erase False, Move 7]))
   \<and> cursor (handleCursorMove (- 5) exampleTty) = 0
   \<and> input (handleCursorMove (- 5) exampleTty) = [0x68, 0x65, 0x6C]
   \<and> cursor (handleCursorInsert [0x6C, 0x6F] exampleTty) = 5
   \<and> input (handleCursorInsert [0x6C, 0x6F] exampleTty) = [0x68, 0x65, 0x6C, 0x6C, 0x6F]
   \<and> handleCursorErase True (exampleTty\<lparr>cursor := 0\<rparr>) = exampleTty\<lparr>cursor := 0\<rparr>"
proof -
  have h: "cursorInLine exampleTty"
    by (simp add: cursorInLine_def exampleTty_def)
  show ?thesis
    using h cursor_stays_in_line [OF h, of 4
        "[Move (- 5), Insert [0x6C, 0x6F], Erase True, Erase False, Move 7]" "- 5" "[0x6C, 0x6F]"]
    by (simp add: exampleTty_def)
qed

subsection \<open>The single-character handler\<close>

text \<open>
  Claim C10.  When the closest-left-word-boundary search answers offset 0 for the current line
  and cursor, ALT+LEFT (\<open>ESC b\<close>) leaves the cursor, and the whole session, as it is, and
  CTRL+BACKSPACE (\<open>ESC DEL\<close>) deletes nothing: the guard \<open>if (ofs)\<close> takes 0 for "no
  boundary".
\<close>

theorem word_start_boundary_is_ignored:
  assumes "closestLeftBoundary env (input (pgTty s)) (cursor (pgTty s)) = 0"
  shows "handleData env [0x1B, 0x62] s = Some s \<and> handleData env [0x1B, 0x7F] s = Some s"
  using assms by (simp add: handleData_def handleEscape_def)

theorem word_start_boundary_is_ignored_witness:
  "closestLeftBoundary exampleEnv (input (pgTty exampleShell)) (cursor (pgTty exampleShell)) = 0
   \<and> handleData exampleEnv [0x1B, 0x62] exampleShell = Some exampleShell
   \<and> handleData exampleEnv [0x1B, 0x7F] exampleShell = Some exampleShell"
proof -
  have h: "closestLeftBoundary exampleEnv (input (pgTty exampleShell))
             (cursor (pgTty exampleShell)) = 0"
    by (simp add: exampleEnv_def exampleShell_def exampleTty_def isWhiteSpace_def)
  show ?thesis
    using h word_start_boundary_is_ignored [OF h] by simp
qed

text \<open>
  Claim C4.  When ENTER (\<open>\r\<close>) is handled by an active shell: if the incomplete-input
  predicate holds of the current line, a newline character is inserted at the cursor, and the
  pending read and the page (resolver calls, timers, listeners) stay as they are; otherwise
  the line is submitted through \<open>handleReadComplete\<close>.
\<close>

theorem enter_inserts_newline_or_submits:
  assumes "active s"
  shows "handleData env [0x0D] s =
           (if isIncompleteInput env (input (pgTty s))
            then Some (onTty (handleCursorInsert [0x0A]) s)
            else handleReadComplete env False s)
    \<and> input (pgTty (onTty (handleCursorInsert [0x0A]) s))
        = substring (input (pgTty s)) 0 (cursor (pgTty s)) @ [0x0A]
          @ substringFrom (input (pgTty s)) (cursor (pgTty s))
    \<and> activePrompt (onTty (handleCursorInsert [0x0A]) s) = activePrompt s
    \<and> page (onTty (handleCursorInsert [0x0A]) s) = page s"
  using assms
  by (simp add: handleData_def handleControl_def onTty_def handleCursorInsert_def
      setInput_def setCursorDirectly_def Let_def)

theorem enter_inserts_newline_or_submits_witness:
  "active openBracketShell
   \<and> isIncompleteInput exampleEnv (input (pgTty openBracketShell))
   \<and> handleData exampleEnv [0x0D] openBracketShell
       = Some (onTty (handleCursorInsert [0x0A]) openBracketShell)
   \<and> input (pgTty (onTty (handleCursorInsert [0x0A]) openBracketShell)) = [0x28, 0x0A]
   \<and> activePrompt (onTty (handleCursorInsert [0x0A]) openBracketShell)
       = activePrompt openBracketShell
   \<and> page (onTty (handleCursorInsert [0x0A]) openBracketShell) = page openBracketShell"
proof -
  have h: "active openBracketShell"
    by (simp add: openBracketShell_def exampleShell_def)
  have i: "isIncompleteInput exampleEnv (input (pgTty openBracketShell))"
    by (simp add: openBracketShell_def exampleEnv_def)
  have l: "input (pgTty openBracketShell) = [0x28]" "cursor (pgTty openBracketShell) = 1"
    by (simp_all add: openBracketShell_def)
  show ?thesis
    using h i enter_inserts_newline_or_submits [OF h, of exampleEnv]
    by (simp add: l substring_def substringFrom_def clampIndex_def)
qed

text \<open>
  Claim C5.  When TAB is handled by an active shell with at least one provider and the
  sorted candidate list has exactly one element, the input line becomes that candidate and
  the cursor its length, whatever line and cursor were before; nothing else changes.
\<close>

theorem tab_single_candidate:
  assumes "active s" and "autocompleteHandlers s \<noteq> []"
    and "sort (collectAutocompleteCandidates env
                 (map (\<lambda>h. h (history s)) (autocompleteHandlers s))
                 (substring (input (pgTty s)) 0 (cursor (pgTty s)))) = [c]"
  shows "handleData env [0x09] s
           = Some (s\<lparr>pgTty := (pgTty s)\<lparr>input := c, cursor := int (length c)\<rparr>\<rparr>)"
  using assms
  by (simp add: handleData_def handleControl_def handleTab_def onTty_def
      setInput_def setCursor_def Let_def)

lemma example_fragment:
  "substring (input (pgTty exampleShell)) 0 (cursor (pgTty exampleShell)) = [0x68, 0x65, 0x6C]"
  by (simp add: exampleShell_def exampleTty_def substring_def clampIndex_def)

lemma example_candidates:
  "sort (collectAutocompleteCandidates exampleEnv
           (map (\<lambda>h. h (history exampleShell)) (autocompleteHandlers exampleShell))
           [0x68, 0x65, 0x6C]) = [[0x68, 0x65, 0x6C, 0x70]]"
  by (simp add: exampleShell_def exampleEnv_def getEntries_def startsWith_def)

theorem tab_single_candidate_witness:
  "active exampleShell \<and> autocompleteHandlers exampleShell \<noteq> []
   \<and> sort (collectAutocompleteCandidates exampleEnv
             (map (\<lambda>h. h (history exampleShell)) (autocompleteHandlers exampleShell))
             (substring (input (pgTty exampleShell)) 0 (cursor (pgTty exampleShell))))
       = [[0x68, 0x65, 0x6C, 0x70]]
   \<and> handleData exampleEnv [0x09] exampleShell
       = Some (exampleShell\<lparr>pgTty := (pgTty exampleShell)\<lparr>input := [0x68, 0x65, 0x6C, 0x70],
                                                            cursor := 4\<rparr>\<rparr>)"
proof -
  have a: "active exampleShell" and b: "autocompleteHandlers exampleShell \<noteq> []"
    by (simp_all add: exampleShell_def)
  have c: "sort (collectAutocompleteCandidates exampleEnv
             (map (\<lambda>h. h (history exampleShell)) (autocompleteHandlers exampleShell))
             (substring (input (pgTty exampleShell)) 0 (cursor (pgTty exampleShell))))
       = [[0x68, 0x65, 0x6C, 0x70]]"
    by (simp only: example_fragment example_candidates)
  show ?thesis
    using a b c tab_single_candidate [OF a b c] by simp
qed

text \<open>
  Claim C6.  When TAB is handled by an active shell with at least one provider and there is no
  candidate: if the fragment from the line start to the cursor ends in white space, the session
  (input line and cursor included) is left as it is; otherwise exactly one space is inserted at
  the cursor, which grows the line by one character and advances the cursor by one.
\<close>

theorem tab_no_candidates:
  assumes "active s" and "autocompleteHandlers s \<noteq> []"
    and "sort (collectAutocompleteCandidates env
                 (map (\<lambda>h. h (history s)) (autocompleteHandlers s))
                 (substring (input (pgTty s)) 0 (cursor (pgTty s)))) = []"
  shows "handleData env [0x09] s
           = Some (if hasTrailingWhitespace env (substring (input (pgTty s)) 0 (cursor (pgTty s)))
                   then s else onTty (handleCursorInsert [0x20]) s)
    \<and> input (pgTty (onTty (handleCursorInsert [0x20]) s))
        = substring (input (pgTty s)) 0 (cursor (pgTty s)) @ [0x20]
          @ substringFrom (input (pgTty s)) (cursor (pgTty s))
    \<and> length (input (pgTty (onTty (handleCursorInsert [0x20]) s))) = length (input (pgTty s)) + 1
    \<and> cursor (pgTty (onTty (handleCursorInsert [0x20]) s)) = cursor (pgTty s) + 1"
proof -
  have a: "handleData env [0x09] s
           = Some (if hasTrailingWhitespace env (substring (input (pgTty s)) 0 (cursor (pgTty s)))
                   then s else onTty (handleCursorInsert [0x20]) s)"
    using assms
    by (simp add: handleData_def handleControl_def handleTab_def Let_def)
  have b: "input (pgTty (onTty (handleCursorInsert [0x20]) s))
        = substring (input (pgTty s)) 0 (cursor (pgTty s)) @ [0x20]
          @ substringFrom (input (pgTty s)) (cursor (pgTty s))"
    and d: "cursor (pgTty (onTty (handleCursorInsert [0x20]) s)) = cursor (pgTty s) + 1"
    by (simp_all add: onTty_def handleCursorInsert_def setInput_def setCursorDirectly_def Let_def)
  have c: "length (input (pgTty (onTty (handleCursorInsert [0x20]) s)))
        = length (input (pgTty s)) + 1"
    unfolding b by (simp add: substring_def substringFrom_def clampIndex_def Let_def)
  from a b c d show ?thesis by (simp only:)
qed

lemma noMatch_candidates:
  "sort (collectAutocompleteCandidates exampleEnv
           (map (\<lambda>h. h (history noMatchShell)) (autocompleteHandlers noMatchShell))
           (substring (input (pgTty noMatchShell)) 0 (cursor (pgTty noMatchShell)))) = []"
  by (simp add: noMatchShell_def exampleShell_def exampleEnv_def getEntries_def startsWith_def
      substring_def clampIndex_def)

lemma noMatchBlank_candidates:
  "sort (collectAutocompleteCandidates exampleEnv
           (map (\<lambda>h. h (history noMatchBlankShell)) (autocompleteHandlers noMatchBlankShell))
           (substring (input (pgTty noMatchBlankShell)) 0 (cursor (pgTty noMatchBlankShell)))) = []"
  by (simp add: noMatchBlankShell_def exampleShell_def exampleEnv_def getEntries_def
      startsWith_def substring_def clampIndex_def)

theorem tab_no_candidates_witness:
  "active noMatchShell \<and> autocompleteHandlers noMatchShell \<noteq> []
   \<and> sort (collectAutocompleteCandidates exampleEnv
             (map (\<lambda>h. h (history noMatchShell)) (autocompleteHandlers noMatchShell))
             (substring (input (pgTty noMatchShell)) 0 (cursor (pgTty noMatchShell)))) = []
   \<and> handleData exampleEnv [0x09] noMatchShell
       = Some (onTty (handleCursorInsert [0x20]) noMatchShell)
   \<and> input (pgTty (onTty (handleCursorInsert [0x20]) noMatchShell)) = [0x7A, 0x7A, 0x20]
   \<and> cursor (pgTty (onTty (handleCursorInsert [0x20]) noMatchShell)) = 3
   \<and> active noMatchBlankShell \<and> autocompleteHandlers noMatchBlankShell \<noteq> []
   \<and> handleData exampleEnv [0x09] noMatchBlankShell = Some noMatchBlankShell"
proof -
  have a: "active noMatchShell" and b: "autocompleteHandlers noMatchShell \<noteq> []"
    by (simp_all add: noMatchShell_def exampleShell_def)
  have a': "active noMatchBlankShell" and b': "autocompleteHandlers noMatchBlankShell \<noteq> []"
    by (simp_all add: noMatchBlankShell_def exampleShell_def)
  have f: "input (pgTty noMatchShell) = [0x7A, 0x7A]" "cursor (pgTty noMatchShell) = 2"
    by (simp_all add: noMatchShell_def)
  have f': "input (pgTty noMatchBlankShell) = [0x7A, 0x7A, 0x20]"
    "cursor (pgTty noMatchBlankShell) = 3"
    by (simp_all add: noMatchBlankShell_def)
  have w: "\<not> hasTrailingWhitespace exampleEnv [0x7A, 0x7A]"
    "hasTrailingWhitespace exampleEnv [0x7A, 0x7A, 0x20]"
    by (simp_all add: exampleEnv_def isWhiteSpace_def)
  show ?thesis
    using a b a' b' noMatch_candidates
      tab_no_candidates [OF a b noMatch_candidates]
      tab_no_candidates [OF a' b' noMatchBlank_candidates]
    by (simp add: f f' w substring_def substringFrom_def clampIndex_def)
qed

subsection \<open>Waiting for user input\<close>

lemma foldl_handleInput:
  "foldl (\<lambda>s' k. handleInput k s') s ks = s' \<Longrightarrow>
     input (pgTty s') = input (pgTty s)
     \<and> resolved (page s') = resolved (page s) @ map (\<lambda>k. (k, input (pgTty s))) ks
     \<and> (ks \<noteq> [] \<longrightarrow> \<not> waitingForInput s')"
proof (induction ks arbitrary: s s' rule: rev_induct)
  case Nil
  then show ?case by simp
next
  case (snoc k ks)
  then show ?case
    by (auto simp: handleInput_def callResolve_def onPage_def Let_def)
qed

lemma map_of_const_pairs: "k \<in> set ks \<Longrightarrow> map_of (map (\<lambda>k. (k, v)) ks) k = Some v"
  by (induction ks) auto

lemma dispatch_settles:
  assumes "k \<in> set (waitListeners (page s))"
    and "settled s k = None \<or> settled s k = Some (input (pgTty s))"
  shows "settled (dispatchWaitForInput s) k = Some (input (pgTty s))
    \<and> \<not> waitingForInput (dispatchWaitForInput s)"
proof -
  define s' where "s' = dispatchWaitForInput s"
  then have "foldl (\<lambda>s' k. handleInput k s') s (waitListeners (page s)) = s'"
    by (simp add: dispatchWaitForInput_def)
  from foldl_handleInput [OF this] assms show ?thesis
    unfolding s'_def [symmetric]
    by (auto simp: settled_def map_add_def map_of_const_pairs)
qed

text \<open>
  Claim C1.  A call of \<open>waitForUserInput\<close> made while the session is waiting for input
  returns a promise rejected with \<open>Already waiting for input.\<close> and leaves the session as it
  is.  The earlier request, whose listener \<open>k\<close> is registered and whose promise has no value
  yet, is still resolved by the next submitted line: after the rejected call, completing the
  read gives promise \<open>k\<close> the input line and ends the waiting.
\<close>

theorem overlapping_wait_is_rejected:
  assumes "waitingForInput s"
  shows "waitForUserInput env msg s = (Rejected (js ''Already waiting for input.''), s)
    \<and> (k \<in> set (waitListeners (page s)) \<and> settled s k = None \<longrightarrow>
        (\<exists>s'. handleReadComplete env False (snd (waitForUserInput env msg s)) = Some s'
           \<and> settled s' k = Some (input (pgTty s)) \<and> \<not> waitingForInput s'))"
proof -
  have rej: "waitForUserInput env msg s = (Rejected (js ''Already waiting for input.''), s)"
    using assms by (simp add: waitForUserInput_def)
  have "\<exists>s'. handleReadComplete env False s = Some s'
           \<and> settled s' k = Some (input (pgTty s)) \<and> \<not> waitingForInput s'"
    if listener: "k \<in> set (waitListeners (page s))" and pending: "settled s k = None"
  proof -
    define s3 where "s3 =
      (onTty (draw (Print [0x0D, 0x0A]))
         (case activePrompt s of None \<Rightarrow> s
          | Some p \<Rightarrow> (case resolve p of None \<Rightarrow> s
                       | Some r \<Rightarrow> (callResolve r (input (pgTty s)) s)\<lparr>activePrompt := None\<rparr>)))
        \<lparr>active := False\<rparr>"
    have w3: "waitingForInput s3" and l3: "waitListeners (page s3) = waitListeners (page s)"
      and i3: "input (pgTty s3) = input (pgTty s)"
      using assms
      by (auto simp: s3_def onTty_def draw_def callResolve_def onPage_def split: option.splits)
    have r3: "settled s3 k = None \<or> settled s3 k = Some (input (pgTty s3))"
      using pending
      by (auto simp: s3_def settled_def onTty_def draw_def callResolve_def onPage_def map_add_def
          split: option.splits)
    have hrc: "handleReadComplete env False s = Some (dispatchWaitForInput s3)"
      using w3 by (simp add: handleReadComplete_def Let_def s3_def)
    have "settled (dispatchWaitForInput s3) k = Some (input (pgTty s))
        \<and> \<not> waitingForInput (dispatchWaitForInput s3)"
      using dispatch_settles [of k s3] listener l3 i3 r3 by simp
    with hrc show ?thesis by simp
  qed
  with rej show ?thesis by simp
qed

lemma waitingShell_unfolded:
  "waitingShell =
     exampleShell\<lparr>pgTty := exampleTty\<lparr>screen := [ClearLine,
                       Println (js ''Input: '' @ [0x3F])]\<rparr>,
                  waitingForInput := True,
                  page := \<lparr>isPgConnected = False, enableTimers = 1, waitListeners = [1],
                           nextPromise = 2, resolved = [], effects = []\<rparr>\<rparr>"
  by (simp add: waitingShell_def waitForUserInput_def exampleShell_def exampleTty_def exampleEnv_def
      enable_def onTty_def onPage_def draw_def Let_def)

theorem overlapping_wait_is_rejected_witness:
  "fst (waitForUserInput exampleEnv [0x3F] exampleShell) = Pending 1
   \<and> waitingForInput waitingShell \<and> 1 \<in> set (waitListeners (page waitingShell))
   \<and> settled waitingShell 1 = None
   \<and> waitForUserInput exampleEnv [0x21] waitingShell
       = (Rejected (js ''Already waiting for input.''), waitingShell)
   \<and> handleReadComplete exampleEnv False (snd (waitForUserInput exampleEnv [0x21] waitingShell))
       \<noteq> None
   \<and> settled (the (handleReadComplete exampleEnv False
                     (snd (waitForUserInput exampleEnv [0x21] waitingShell)))) 1
       = Some [0x68, 0x65, 0x6C]
   \<and> \<not> waitingForInput (the (handleReadComplete exampleEnv False
                               (snd (waitForUserInput exampleEnv [0x21] waitingShell))))"
proof -
  have p: "fst (waitForUserInput exampleEnv [0x3F] exampleShell) = Pending 1"
    by (simp add: waitForUserInput_def exampleShell_def Let_def)
  have a: "waitingForInput waitingShell" and b: "1 \<in> set (waitListeners (page waitingShell))"
    and c: "settled waitingShell 1 = None"
    and i: "input (pgTty waitingShell) = [0x68, 0x65, 0x6C]"
    by (simp_all add: waitingShell_unfolded settled_def exampleTty_def)
  from overlapping_wait_is_rejected [OF a, of exampleEnv "[0x21]" 1] b c
  obtain s' where "waitForUserInput exampleEnv [0x21] waitingShell
       = (Rejected (js ''Already waiting for input.''), waitingShell)"
    and "handleReadComplete exampleEnv False (snd (waitForUserInput exampleEnv [0x21] waitingShell))
       = Some s'"
    and "settled s' 1 = Some (input (pgTty waitingShell))" and "\<not> waitingForInput s'"
    by blast
  with p a b c i show ?thesis by simp
qed

subsection \<open>Command dispatch\<close>

lemma command_names_distinct:
  "DEPLOY \<noteq> BUILD" "DEPLOY \<noteq> CLEAR" "DEPLOY \<noteq> CONNECT"
  "SOLANA \<noteq> BUILD" "SOLANA \<noteq> CLEAR" "SOLANA \<noteq> CONNECT" "SOLANA \<noteq> DEPLOY" "SOLANA \<noteq> HELP"
  "SOLANA \<noteq> RUN_LAST_CMD"
  "SPL_TOKEN \<noteq> BUILD" "SPL_TOKEN \<noteq> CLEAR" "SPL_TOKEN \<noteq> CONNECT" "SPL_TOKEN \<noteq> DEPLOY"
  "SPL_TOKEN \<noteq> HELP" "SPL_TOKEN \<noteq> RUN_LAST_CMD" "SPL_TOKEN \<noteq> SOLANA"
  by (simp_all add: js_def BUILD_def CLEAR_def CONNECT_def DEPLOY_def HELP_def SOLANA_def
      SPL_TOKEN_def RUN_LAST_CMD_def)

lemma step_deploy:
  "\<not> isPgConnected (page s) \<Longrightarrow> takeWhile (\<lambda>c. c \<noteq> 0x20) (trim cmd) = DEPLOY \<Longrightarrow>
     parseCommandStep env cmd s = Return (enable s)"
  by (simp add: parseCommandStep_def checkIsPgConnected_def command_names_distinct)

lemma step_solana:
  "\<not> isPgConnected (page s) \<Longrightarrow> takeWhile (\<lambda>c. c \<noteq> 0x20) (trim cmd) = SOLANA \<Longrightarrow>
     SOLANA \<notin> {PRETTIER env, RUN env, TEST env, RUSTFMT env} \<Longrightarrow>
     parseCommandStep env cmd s = Return (enable s)"
  by (simp add: parseCommandStep_def checkIsPgConnected_def command_names_distinct)

lemma step_spl_token:
  "\<not> isPgConnected (page s) \<Longrightarrow> takeWhile (\<lambda>c. c \<noteq> 0x20) (trim cmd) = SPL_TOKEN \<Longrightarrow>
     SPL_TOKEN \<notin> {PRETTIER env, RUN env, TEST env, RUSTFMT env} \<Longrightarrow>
     parseCommandStep env cmd s = Return (enable s)"
  by (simp add: parseCommandStep_def checkIsPgConnected_def command_names_distinct)

text \<open>
  Claim C2.  When the command name selects the \<open>deploy\<close>, \<open>solana\<close> or \<open>spl-token\<close> case
  and the wallet is not connected, \<open>_parseCommand\<close> returns with the action skipped (no
  effect is emitted, no package is marked as loaded) and with \<open>enable()\<close> called exactly once:
  the session is the one \<open>enable\<close> gives, with one more queued enable callback.  The call is
  the one made by the wallet check; the case itself adds none.
\<close>

theorem unmet_wallet_precondition_enables_once:
  assumes "\<not> isPgConnected (page s)"
    and "takeWhile (\<lambda>c. c \<noteq> 0x20) (trim cmd) = cmdName"
    and "cmdName = DEPLOY
         \<or> (cmdName = SOLANA \<or> cmdName = SPL_TOKEN)
            \<and> cmdName \<notin> {PRETTIER env, RUN env, TEST env, RUSTFMT env}"
  shows "parseCommand env cmd s = Some (enable s)
    \<and> enableTimers (page (enable s)) = enableTimers (page s) + 1
    \<and> effects (page (enable s)) = effects (page s)
    \<and> loadedPkgs (enable s) = loadedPkgs s"
proof -
  from assms(3) consider (deploy) "cmdName = DEPLOY"
    | (solana) "cmdName = SOLANA" "SOLANA \<notin> {PRETTIER env, RUN env, TEST env, RUSTFMT env}"
    | (spl) "cmdName = SPL_TOKEN" "SPL_TOKEN \<notin> {PRETTIER env, RUN env, TEST env, RUSTFMT env}"
    by auto
  then have step: "parseCommandStep env cmd s = Return (enable s)"
  proof cases
    case deploy
    with assms(1,2) show ?thesis by (simp add: step_deploy)
  next
    case solana
    with assms(1,2) show ?thesis by (simp add: step_solana)
  next
    case spl
    with assms(1,2) show ?thesis by (simp add: step_spl_token)
  qed
  have "parseCommand env cmd s = Some (enable s)"
    by (subst parseCommand.simps) (simp add: step)
  then show ?thesis by (simp add: enable_def onPage_def)
qed

theorem unmet_wallet_precondition_enables_once_witness:
  "\<not> isPgConnected (page exampleShell)
   \<and> takeWhile (\<lambda>c. c \<noteq> 0x20) (trim (js '' solana balance'')) = SOLANA
   \<and> SOLANA \<notin> {PRETTIER exampleEnv, RUN exampleEnv, TEST exampleEnv, RUSTFMT exampleEnv}
   \<and> parseCommand exampleEnv (js '' solana balance'') exampleShell = Some (enable exampleShell)
   \<and> enableTimers (page (enable exampleShell)) = 1
   \<and> effects (page (enable exampleShell)) = []
   \<and> loadedPkgs (enable exampleShell) = Map.empty"
proof -
  have a: "\<not> isPgConnected (page exampleShell)"
    by (simp add: exampleShell_def)
  have b: "takeWhile (\<lambda>c. c \<noteq> 0x20) (trim (js '' solana balance'')) = SOLANA"
    by (simp add: js_def trim_def isWhiteSpace_def SOLANA_def)
  have c: "SOLANA \<notin> {PRETTIER exampleEnv, RUN exampleEnv, TEST exampleEnv, RUSTFMT exampleEnv}"
    by (simp add: js_def SOLANA_def exampleEnv_def)
  have d: "SOLANA = DEPLOY
         \<or> (SOLANA = SOLANA \<or> SOLANA = SPL_TOKEN)
            \<and> SOLANA \<notin> {PRETTIER exampleEnv, RUN exampleEnv, TEST exampleEnv, RUSTFMT exampleEnv}"
    using c by simp
  have e: "enableTimers (page exampleShell) = 0" "effects (page exampleShell) = []"
    "loadedPkgs exampleShell = Map.empty"
    by (simp_all add: exampleShell_def)
  show ?thesis
    using a b c unmet_wallet_precondition_enables_once [OF a b d] by (simp add: e)
qed

subsection \<open>The entry point for terminal data\<close>

lemma replaceNewlines_plain:
  "list_all (\<lambda>c. \<not> isNewline c) u \<Longrightarrow> replaceNewlines (u @ rest) = u @ replaceNewlines rest"
  by (induction u) simp_all

lemma dropWhile_stops: "rest = [] \<or> \<not> P (hd rest) \<Longrightarrow> dropWhile P rest = rest"
  by (cases rest) simp_all

lemma dropWhile_run:
  "list_all P run \<Longrightarrow> rest = [] \<or> \<not> P (hd rest) \<Longrightarrow> dropWhile P (run @ rest) = rest"
  by (induction run) (simp_all add: dropWhile_stops)

lemma replaceNewlines_run:
  "run \<noteq> [] \<Longrightarrow> list_all isNewline run \<Longrightarrow> rest = [] \<or> \<not> isNewline (hd rest) \<Longrightarrow>
     replaceNewlines (run @ rest) = 0x0D # replaceNewlines rest"
  by (cases run) (simp_all add: dropWhile_run)

lemma concat_arrayFrom: "concat (arrayFrom str) = str"
  by (induction str rule: arrayFrom.induct) simp_all

lemma arrayFrom_code_points: "list_all isCodePoint (arrayFrom str)"
  by (induction str rule: arrayFrom.induct) (simp_all add: isCodePoint_def)

lemma capture_keeps_char_prompt:
  "capturePromptPrefix s = Some s1 \<Longrightarrow> activeCharPrompt s1 = activeCharPrompt s"
  by (auto simp: capturePromptPrefix_def onTty_def split: option.splits if_splits)

lemma capture_keeps_line:
  "capturePromptPrefix s = Some s1 \<Longrightarrow>
     input (pgTty s1) = input (pgTty s) \<and> cursor (pgTty s1) = cursor (pgTty s)
     \<and> history s1 = history s \<and> page s1 = page s \<and> active s1 = active s"
  by (auto simp: capturePromptPrefix_def onTty_def split: option.splits if_splits)

lemma resolve_char_keeps_line:
  "s' = onTty (draw (Print [0x0D, 0x0A])) ((callResolve r data s1)\<lparr>activeCharPrompt := None\<rparr>) \<Longrightarrow>
     input (pgTty s') = input (pgTty s1) \<and> cursor (pgTty s') = cursor (pgTty s1)
     \<and> history s' = history s1 \<and> active s' = active s1"
  by (simp add: onTty_def draw_def callResolve_def onPage_def)

lemma capture_firstInput: "capturePromptPrefix firstInputShell = Some exampleShell"
  by (simp add: capturePromptPrefix_def firstInputShell_def exampleShell_def exampleTty_def
      onTty_def)

lemma capture_noBufferLine: "capturePromptPrefix noBufferLineShell = None"
  by (simp add: capturePromptPrefix_def noBufferLineShell_def exampleShell_def)

lemma insert_visible:
  "active s \<Longrightarrow> 32 \<le> c \<Longrightarrow> c \<noteq> 0x7F \<Longrightarrow>
     handleData env [c] s = Some (onTty (handleCursorInsert [c]) s)"
  by (auto simp: handleData_def)

text \<open>
  Claim C3, as the code has it.  For a chunk delivered to an active shell with no char-level
  read pending, once the first-input block has passed (it returns early when the buffer has
  no line under the cursor): the chunk is expanded as a paste exactly when it is longer than
  3 and does not start with the escape byte, and is otherwise handled as one unit.  In the
  expansion, text without CR or LF is kept, every maximal run of CR and LF characters becomes
  one CR, and the pieces fed in order to the single-character handler are the code points of
  the normalized string: their concatenation is that string.
\<close>

theorem paste_expansion:
  "(active s \<and> \<not> charReadPending s \<and> capturePromptPrefix s = Some s1 \<longrightarrow>
      handleTermData env data s =
        (if length data > 3 \<and> hd data \<noteq> 0x1B
         then feedChars env (arrayFrom (replaceNewlines data)) s1
         else handleData env data s1))
   \<and> (list_all (\<lambda>c. \<not> isNewline c) u \<and> run \<noteq> [] \<and> list_all isNewline run
        \<and> (rest = [] \<or> \<not> isNewline (hd rest)) \<longrightarrow>
      replaceNewlines (u @ run @ rest) = u @ [0x0D] @ replaceNewlines rest)
   \<and> (list_all (\<lambda>c. \<not> isNewline c) u \<longrightarrow> replaceNewlines u = u)
   \<and> concat (arrayFrom (replaceNewlines data)) = replaceNewlines data
   \<and> list_all isCodePoint (arrayFrom (replaceNewlines data))"
proof -
  have a: "handleTermData env data s =
           (if length data > 3 \<and> hd data \<noteq> 0x1B
            then feedChars env (arrayFrom (replaceNewlines data)) s1
            else handleData env data s1)"
    if "active s" and "\<not> charReadPending s" and cap: "capturePromptPrefix s = Some s1"
  proof -
    have "Option.bind (activeCharPrompt s1) resolve = None"
      using that by (simp add: charReadPending_def capture_keeps_char_prompt)
    then show ?thesis
      using that by (simp add: handleTermData_def)
  qed
  have b: "replaceNewlines (u @ run @ rest) = u @ [0x0D] @ replaceNewlines rest"
    if "list_all (\<lambda>c. \<not> isNewline c) u" and "run \<noteq> []" and "list_all isNewline run"
      and "rest = [] \<or> \<not> isNewline (hd rest)"
    using that by (simp add: replaceNewlines_plain replaceNewlines_run)
  have c: "replaceNewlines u = u" if "list_all (\<lambda>c. \<not> isNewline c) u"
    using replaceNewlines_plain [OF that, of "[]"] by simp
  from a b c show ?thesis
    using concat_arrayFrom [of "replaceNewlines data"]
      arrayFrom_code_points [of "replaceNewlines data"]
    by blast
qed

theorem paste_expansion_witness:
  "active firstInputShell \<and> \<not> charReadPending firstInputShell
   \<and> capturePromptPrefix firstInputShell = Some exampleShell
   \<and> list_all (\<lambda>c. \<not> isNewline c) [0x61, 0x62] \<and> [0x0D, 0x0A, 0x0A] \<noteq> []
   \<and> list_all isNewline [0x0D, 0x0A, 0x0A] \<and> \<not> isNewline (hd [0x63])
   \<and> handleTermData exampleEnv [0x61, 0x62, 0x0D, 0x0A, 0x0A, 0x63] firstInputShell
       = feedChars exampleEnv [[0x61], [0x62], [0x0D], [0x63]] exampleShell
   \<and> replaceNewlines ([0x61, 0x62] @ [0x0D, 0x0A, 0x0A] @ [0x63]) = [0x61, 0x62, 0x0D, 0x63]
   \<and> replaceNewlines [0x61, 0x62] = [0x61, 0x62]"
proof -
  have a: "active firstInputShell" and b: "\<not> charReadPending firstInputShell"
    by (simp_all add: firstInputShell_def exampleShell_def charReadPending_def)
  have d: "list_all (\<lambda>c. \<not> isNewline c) [0x61, 0x62]" and e: "[0x0D, 0x0A, 0x0A] \<noteq> ([]::jsstring)"
    and f: "list_all isNewline [0x0D, 0x0A, 0x0A]"
    and g: "[0x63] = ([]::jsstring) \<or> \<not> isNewline (hd [0x63])"
    by (simp_all add: isNewline_def)
  have n: "replaceNewlines [0x63] = [0x63]"
    by (simp add: isNewline_def)
  show ?thesis
    using a b d e f g capture_firstInput
      paste_expansion [of firstInputShell exampleShell exampleEnv
        "[0x61, 0x62, 0x0D, 0x0A, 0x0A, 0x63]" "[0x61, 0x62]" "[0x0D, 0x0A, 0x0A]" "[0x63]"]
    by (simp add: n isHighSurrogate_def isLowSurrogate_def)
qed

text \<open>
  Claim C3 as stated fails: an active shell with no char-level read pending, whose first-input
  block finds no buffer line, returns before the paste test; the pasted \<open>abcd\<close> is not fed to
  the single-character handler, which would have appended it to the line.
\<close>

theorem paste_expansion_counterexample:
  "active noBufferLineShell \<and> \<not> charReadPending noBufferLineShell
   \<and> length [0x61, 0x62, 0x63, 0x64 :: jschar] > 3 \<and> hd [0x61, 0x62, 0x63, 0x64 :: jschar] \<noteq> 0x1B
   \<and> handleTermData exampleEnv [0x61, 0x62, 0x63, 0x64] noBufferLineShell = Some noBufferLineShell
   \<and> input (pgTty noBufferLineShell) = [0x68, 0x65, 0x6C]
   \<and> feedChars exampleEnv (arrayFrom (replaceNewlines [0x61, 0x62, 0x63, 0x64])) noBufferLineShell
       = Some (noBufferLineShell\<lparr>pgTty := (pgTty noBufferLineShell)
                 \<lparr>input := [0x68, 0x65, 0x6C, 0x61, 0x62, 0x63, 0x64], cursor := 7\<rparr>\<rparr>)
   \<and> handleTermData exampleEnv [0x61, 0x62, 0x63, 0x64] noBufferLineShell
       \<noteq> feedChars exampleEnv (arrayFrom (replaceNewlines [0x61, 0x62, 0x63, 0x64]))
            noBufferLineShell"
proof -
  have a: "active noBufferLineShell" and b: "\<not> charReadPending noBufferLineShell"
    by (simp_all add: noBufferLineShell_def exampleShell_def charReadPending_def)
  have h: "handleTermData exampleEnv [0x61, 0x62, 0x63, 0x64] noBufferLineShell
      = Some noBufferLineShell"
    using a by (simp add: handleTermData_def capture_noBufferLine)
  have i: "input (pgTty noBufferLineShell) = [0x68, 0x65, 0x6C]"
    by (simp add: noBufferLineShell_def exampleTty_def)
  have n: "arrayFrom (replaceNewlines [0x61, 0x62, 0x63, 0x64])
      = [[0x61], [0x62], [0x63], [0x64]]"
    by (simp add: isNewline_def isHighSurrogate_def isLowSurrogate_def)
  have act: "active (onTty f s) = active s" for f s
    by (simp add: onTty_def)
  have f: "feedChars exampleEnv [[0x61], [0x62], [0x63], [0x64]] noBufferLineShell
       = Some (noBufferLineShell\<lparr>pgTty := (pgTty noBufferLineShell)
                 \<lparr>input := [0x68, 0x65, 0x6C, 0x61, 0x62, 0x63, 0x64], cursor := 7\<rparr>\<rparr>)"
    using a
    by (simp add: insert_visible act)
       (simp add: onTty_def handleCursorInsert_def setInput_def setCursorDirectly_def Let_def
          substring_def substringFrom_def clampIndex_def noBufferLineShell_def exampleTty_def)
  have l: "length [0x61, 0x62, 0x63, 0x64 :: jschar] > 3"
    "hd [0x61, 0x62, 0x63, 0x64 :: jschar] \<noteq> 0x1B"
    by simp_all
  have d: "noBufferLineShell \<noteq> noBufferLineShell\<lparr>pgTty := (pgTty noBufferLineShell)
                 \<lparr>input := [0x68, 0x65, 0x6C, 0x61, 0x62, 0x63, 0x64], cursor := 7\<rparr>\<rparr>"
  proof
    assume "noBufferLineShell = noBufferLineShell\<lparr>pgTty := (pgTty noBufferLineShell)
                 \<lparr>input := [0x68, 0x65, 0x6C, 0x61, 0x62, 0x63, 0x64], cursor := 7\<rparr>\<rparr>"
    then have "input (pgTty noBufferLineShell)
        = input (pgTty (noBufferLineShell\<lparr>pgTty := (pgTty noBufferLineShell)
                 \<lparr>input := [0x68, 0x65, 0x6C, 0x61, 0x62, 0x63, 0x64], cursor := 7\<rparr>\<rparr>))"
      by (rule arg_cong)
    with i show False by simp
  qed
  have ne: "handleTermData exampleEnv [0x61, 0x62, 0x63, 0x64] noBufferLineShell
       \<noteq> feedChars exampleEnv [[0x61], [0x62], [0x63], [0x64]] noBufferLineShell"
    unfolding h f using d by simp
  from a b l h i f ne show ?thesis unfolding n by blast
qed

lemma handleTab_keeps_char_prompt: "activeCharPrompt (handleTab env s) = activeCharPrompt s"
  by (simp add: handleTab_def printAndRestartPrompt_def resume_def onTty_def Let_def)

lemma overLimit_candidates:
  "sort (collectAutocompleteCandidates exampleEnv
           (map (\<lambda>h. h (history overLimitShell)) (autocompleteHandlers overLimitShell))
           (substring (input (pgTty overLimitShell)) 0 (cursor (pgTty overLimitShell))))
     = [[0x62, 0x75, 0x69, 0x6C, 0x64], [0x68, 0x65, 0x6C, 0x70]]"
  by (simp add: overLimitShell_def exampleShell_def exampleEnv_def getEntries_def startsWith_def
      substring_def clampIndex_def)

text \<open>
  Claim C7.  The code does not do what the claim, and the comment "If we have an active
  character prompt, satisfy it in priority", say.  The only char-level read the shell issues
  is the \<open>readChar\<close> of the over-limit TAB case, and its prompt is not stored in
  \<open>_activeCharPrompt\<close>, which nothing ever assigns.  On a shell with two history entries and
  a display limit of one, TAB on the empty line asks \<open>Display all 2 possibilities? (y or n)\<close>
  and leaves no char prompt behind; the answer \<open>y\<close> is then inserted into the input line
  and no resolver is called.
\<close>

theorem char_read_is_not_stored:
  "active overLimitShell \<and> activeCharPrompt overLimitShell = None
   \<and> handleTermData exampleEnv [0x09] overLimitShell
       = Some (overLimitShell\<lparr>pgTty := (pgTty overLimitShell)
                 \<lparr>screen := [Print [0x0D, 0x0A],
                              ReadChar (js ''Display all 2 possibilities? (y or n)'')]\<rparr>\<rparr>)
   \<and> activeCharPrompt (overLimitShell\<lparr>pgTty := (pgTty overLimitShell)
                 \<lparr>screen := [Print [0x0D, 0x0A],
                              ReadChar (js ''Display all 2 possibilities? (y or n)'')]\<rparr>\<rparr>) = None
   \<and> handleTermData exampleEnv [0x79]
        (overLimitShell\<lparr>pgTty := (pgTty overLimitShell)
                 \<lparr>screen := [Print [0x0D, 0x0A],
                              ReadChar (js ''Display all 2 possibilities? (y or n)'')]\<rparr>\<rparr>)
       = Some (overLimitShell\<lparr>pgTty := (pgTty overLimitShell)
                 \<lparr>input := [0x79], cursor := 1,
                  screen := [Print [0x0D, 0x0A],
                             ReadChar (js ''Display all 2 possibilities? (y or n)'')]\<rparr>\<rparr>)
   \<and> resolved (page overLimitShell) = []"
proof -
  have a: "active overLimitShell" and c: "activeCharPrompt overLimitShell = None"
    and r: "resolved (page overLimitShell) = []"
    and h: "autocompleteHandlers overLimitShell \<noteq> []"
    and m: "maxAutocompleteEntries overLimitShell = 1"
    and i: "input (pgTty overLimitShell) = []" "cursor (pgTty overLimitShell) = 0"
      "screen (pgTty overLimitShell) = []"
    and ap: "activePrompt overLimitShell = Some \<lparr>promptPrefix = [0x24, 0x20], resolve = Some 0\<rparr>"
    and fi: "\<not> firstInit (pgTty overLimitShell)"
    by (simp_all add: overLimitShell_def exampleShell_def exampleTty_def)
  have cap: "capturePromptPrefix overLimitShell = Some overLimitShell"
    by (simp add: capturePromptPrefix_def ap fi)
  define asked where "asked = overLimitShell\<lparr>pgTty := (pgTty overLimitShell)
                 \<lparr>screen := [Print [0x0D, 0x0A],
                              ReadChar (js ''Display all 2 possibilities? (y or n)'')]\<rparr>\<rparr>"
  have tab: "handleTab exampleEnv overLimitShell = asked"
    using h overLimit_candidates
    by (simp add: handleTab_def Let_def m printAndRestartPrompt_def onTty_def setCursor_def
        draw_def i asked_def js_def)
  have t: "handleTermData exampleEnv [0x09] overLimitShell = Some asked"
    using a by (simp add: handleTermData_def cap c handleData_def handleControl_def tab)
  have a': "active asked" and c': "activeCharPrompt asked = None"
    and i': "input (pgTty asked) = []" "cursor (pgTty asked) = 0"
    and ap': "activePrompt asked = Some \<lparr>promptPrefix = [0x24, 0x20], resolve = Some 0\<rparr>"
    and fi': "\<not> firstInit (pgTty asked)"
    using a c i ap fi by (simp_all add: asked_def)
  have cap': "capturePromptPrefix asked = Some asked"
    by (simp add: capturePromptPrefix_def ap' fi')
  have y: "handleTermData exampleEnv [0x79] asked
      = Some (overLimitShell\<lparr>pgTty := (pgTty overLimitShell)
                 \<lparr>input := [0x79], cursor := 1,
                  screen := [Print [0x0D, 0x0A],
                             ReadChar (js ''Display all 2 possibilities? (y or n)'')]\<rparr>\<rparr>)"
    using a'
    by (simp add: handleTermData_def cap' c' handleData_def onTty_def handleCursorInsert_def
        setInput_def setCursorDirectly_def Let_def i' substring_def substringFrom_def
        clampIndex_def)
       (simp add: asked_def)
  from a c r t c' y show ?thesis
    unfolding asked_def by blast
qed

lemma ctrl_c_has_no_case: "handleData env [0x03] t = Some t"
  by (simp add: handleData_def handleControl_def)

lemma ctrl_c_no_edit:
  "\<exists>s'. handleTermData env [0x03] s = Some s'
          \<and> input (pgTty s') = input (pgTty s) \<and> cursor (pgTty s') = cursor (pgTty s)
          \<and> history s' = history s \<and> active s' = active s"
proof (cases "capturePromptPrefix s")
  case None
  then show ?thesis by (simp add: handleTermData_def)
next
  case (Some s1)
  show ?thesis
  proof (cases "Option.bind (activeCharPrompt s1) resolve")
    case None
    with Some capture_keeps_line [OF Some] show ?thesis
      by (simp add: handleTermData_def ctrl_c_has_no_case)
  next
    case r: (Some r)
    with Some capture_keeps_line [OF Some] resolve_char_keeps_line [OF refl, of r "[0x03]" s1]
    show ?thesis
      by (simp add: handleTermData_def)
  qed
qed

text \<open>
  Claim C8.  While the shell is inactive, a chunk other than the single CTRL+C byte is
  discarded by \<open>handleTermData\<close> (and by \<open>_handleData\<close>): the session, input line and cursor
  included, is left as it is.  The CTRL+C byte passes the guard, but the single-character
  handler has no case for it and returns the session unchanged, and through \<open>handleTermData\<close>
  it edits nothing: input line, cursor, history and the active flag are those of before.
\<close>

theorem inactive_shell_discards_input:
  "(\<not> active s \<and> data \<noteq> [0x03] \<longrightarrow>
      handleTermData env data s = Some s \<and> handleData env data s = Some s)
   \<and> handleData env [0x03] s = Some s
   \<and> (\<exists>s'. handleTermData env [0x03] s = Some s'
         \<and> input (pgTty s') = input (pgTty s) \<and> cursor (pgTty s') = cursor (pgTty s)
         \<and> history s' = history s \<and> active s' = active s)"
  using ctrl_c_has_no_case [of env s] ctrl_c_no_edit [of env s]
  by (simp add: handleTermData_def handleData_def)

theorem inactive_shell_discards_input_witness:
  "\<not> active inactiveShell \<and> [0x61] \<noteq> [0x03 :: jschar]
   \<and> handleTermData exampleEnv [0x61] inactiveShell = Some inactiveShell
   \<and> handleData exampleEnv [0x61] inactiveShell = Some inactiveShell
   \<and> handleData exampleEnv [0x03] inactiveShell = Some inactiveShell
   \<and> handleTermData exampleEnv [0x03] inactiveShell \<noteq> None
   \<and> input (pgTty (the (handleTermData exampleEnv [0x03] inactiveShell))) = [0x68, 0x65, 0x6C]
   \<and> cursor (pgTty (the (handleTermData exampleEnv [0x03] inactiveShell))) = 3
   \<and> \<not> active (the (handleTermData exampleEnv [0x03] inactiveShell))"
proof -
  have a: "\<not> active inactiveShell" and b: "[0x61] \<noteq> [0x03 :: jschar]"
    by (simp_all add: inactiveShell_def)
  have d: "input (pgTty inactiveShell) = [0x68, 0x65, 0x6C]" "cursor (pgTty inactiveShell) = 3"
    by (simp_all add: inactiveShell_def exampleShell_def exampleTty_def)
  from inactive_shell_discards_input [of inactiveShell "[0x61]" exampleEnv] a b
  obtain s' where "handleTermData exampleEnv [0x61] inactiveShell = Some inactiveShell"
    and "handleData exampleEnv [0x61] inactiveShell = Some inactiveShell"
    and "handleData exampleEnv [0x03] inactiveShell = Some inactiveShell"
    and "handleTermData exampleEnv [0x03] inactiveShell = Some s'"
    and "input (pgTty s') = input (pgTty inactiveShell)"
    and "cursor (pgTty s') = cursor (pgTty inactiveShell)"
    and "active s' = active inactiveShell"
    by blast
  with a b d show ?thesis by simp
qed

end
